theory Spec2Isabelle
  imports Main "HOL-Library.AList" "HOL-Library.Sublist"
begin

section \<open>Python values\<close>

text \<open>
  The commands of the client receive decoded JSON from the API client and inspect it
  dynamically. A value is \<open>None\<close>, a bool, an unbounded int, a float, a str, a list or a
  dict with str keys. A dict is an association list: \<open>values()\<close> and the iteration order
  follow insertion order. A str is a list of code points below 256. A float is kept as
  its \<open>repr\<close> text (which determines it); the one float computation of the commands
  is done in integer arithmetic, below.
\<close>

datatype pyval =
    PNone
  | PBool bool
  | PInt int
  | PFloat string
  | PStr string
  | PList "pyval list"
  | PDict "(string \<times> pyval) list"

text \<open>
  Exceptions. \<open>IOError\<close> stands for the whole \<open>OSError\<close> family, \<open>OtherError\<close> for
  whatever else the API client raises. All of them derive from \<open>Exception\<close>;
  \<open>SystemExit\<close> does not: \<open>sys.exit\<close> is one of the ways a command ends, below.
\<close>

datatype exn =
    KeyError string
  | TypeError
  | AttributeError
  | IndexError
  | IOError
  | JSONDecodeError
  | UnicodeDecodeError
  | RecursionError
  | OverflowError
  | OtherError string

subsection \<open>Truth value, comparison with zero\<close>

definition float_is_zero :: "string \<Rightarrow> bool" where
  "float_is_zero r = (r = ''0.0'' \<or> r = ''-0.0'')"

fun truthy :: "pyval \<Rightarrow> bool" where
  "truthy PNone = False"
| "truthy (PBool b) = b"
| "truthy (PInt i) = (i \<noteq> 0)"
| "truthy (PFloat r) = (\<not> float_is_zero r)"
| "truthy (PStr s) = (s \<noteq> [])"
| "truthy (PList xs) = (xs \<noteq> [])"
| "truthy (PDict d) = (d \<noteq> [])"

text \<open>\<open>v == 0\<close>: numbers compare by value (\<open>False == 0\<close>), nothing else equals 0.\<close>

fun py_eq_zero :: "pyval \<Rightarrow> bool" where
  "py_eq_zero (PInt i) = (i = 0)"
| "py_eq_zero (PBool b) = (\<not> b)"
| "py_eq_zero (PFloat r) = float_is_zero r"
| "py_eq_zero _ = False"

subsection \<open>Container operations\<close>

text \<open>\<open>v[key]\<close> with a str key.\<close>

fun py_getitem :: "pyval \<Rightarrow> string \<Rightarrow> exn + pyval" where
  "py_getitem (PDict d) k = (case map_of d k of None \<Rightarrow> Inl (KeyError k) | Some v \<Rightarrow> Inr v)"
| "py_getitem _ k = Inl TypeError"

text \<open>\<open>v[0]\<close>; a dict here has str keys only, so the key 0 is missing.\<close>

fun py_first :: "pyval \<Rightarrow> exn + pyval" where
  "py_first (PList xs) = (case xs of [] \<Rightarrow> Inl IndexError | x # _ \<Rightarrow> Inr x)"
| "py_first (PStr s) = (case s of [] \<Rightarrow> Inl IndexError | c # _ \<Rightarrow> Inr (PStr [c]))"
| "py_first (PDict d) = Inl (KeyError ''0'')"
| "py_first _ = Inl TypeError"

fun py_len :: "pyval \<Rightarrow> exn + nat" where
  "py_len (PList xs) = Inr (length xs)"
| "py_len (PDict d) = Inr (length d)"
| "py_len (PStr s) = Inr (length s)"
| "py_len _ = Inl TypeError"

text \<open>\<open>key in v\<close> with a str key: a key of a dict, an element of a list, a substring.\<close>

fun py_in :: "string \<Rightarrow> pyval \<Rightarrow> exn + bool" where
  "py_in k (PDict d) = Inr (k \<in> set (map fst d))"
| "py_in k (PList xs) = Inr (PStr k \<in> set xs)"
| "py_in k (PStr s) = Inr (sublist k s)"
| "py_in k _ = Inl TypeError"

text \<open>\<open>for item in v\<close>: the elements of a list, the keys of a dict, the characters.\<close>

fun py_iter :: "pyval \<Rightarrow> exn + pyval list" where
  "py_iter (PList xs) = Inr xs"
| "py_iter (PDict d) = Inr (map (\<lambda>kv. PStr (fst kv)) d)"
| "py_iter (PStr s) = Inr (map (\<lambda>c. PStr [c]) s)"
| "py_iter _ = Inl TypeError"

fun py_values :: "pyval \<Rightarrow> exn + pyval list" where
  "py_values (PDict d) = Inr (map snd d)"
| "py_values _ = Inl AttributeError"

text \<open>\<open>v[key] = x\<close>: an existing key keeps its place, a new one goes last.\<close>

fun py_setitem :: "pyval \<Rightarrow> string \<Rightarrow> pyval \<Rightarrow> exn + pyval" where
  "py_setitem (PDict d) k x = Inr (PDict (AList.update k x d))"
| "py_setitem _ k x = Inl TypeError"

subsection \<open>Text\<close>

fun nat_str :: "nat \<Rightarrow> string" where
  "nat_str n = (if n < 10 then [''0123456789'' ! n]
                else nat_str (n div 10) @ [''0123456789'' ! (n mod 10)])"

declare nat_str.simps [simp del]

definition int_str :: "int \<Rightarrow> string" where
  "int_str i = (if i < 0 then CHR ''-'' # nat_str (nat (- i)) else nat_str (nat i))"

fun join :: "string \<Rightarrow> string list \<Rightarrow> string" where
  "join sep [] = []"
| "join sep [x] = x"
| "join sep (x # y # ys) = x @ sep @ join sep (y # ys)"

definition hex_digit :: "nat \<Rightarrow> char" where
  "hex_digit n = ''0123456789abcdef'' ! (n mod 16)"

definition printable :: "char \<Rightarrow> bool" where
  "printable c = (let n = (of_char c :: nat) in (32 \<le> n \<and> n < 127) \<or> (161 \<le> n \<and> n \<noteq> 173))"

definition repr_char :: "char \<Rightarrow> char \<Rightarrow> string" where
  "repr_char q c =
     (if c = q \<or> c = CHR 0x5C then [CHR 0x5C, c]
      else if c = CHR 0x09 then [CHR 0x5C, CHR ''t'']
      else if c = CHR 0x0A then [CHR 0x5C, CHR ''n'']
      else if c = CHR 0x0D then [CHR 0x5C, CHR ''r'']
      else if printable c then [c]
      else [CHR 0x5C, CHR ''x'', hex_digit (of_char c div 16), hex_digit (of_char c)])"

definition str_repr :: "string \<Rightarrow> string" where
  "str_repr s =
     (let q = (if CHR 0x27 \<in> set s \<and> CHR 0x22 \<notin> set s then CHR 0x22 else CHR 0x27)
      in q # concat (map (repr_char q) s) @ [q])"

primrec py_repr :: "pyval \<Rightarrow> string" where
  "py_repr PNone = ''None''"
| "py_repr (PBool b) = (if b then ''True'' else ''False'')"
| "py_repr (PInt i) = int_str i"
| "py_repr (PFloat r) = r"
| "py_repr (PStr s) = str_repr s"
| "py_repr (PList xs) = ''['' @ join '', '' (map py_repr xs) @ '']''"
| "py_repr (PDict d) =
     ''{'' @ join '', '' (map (\<lambda>kv. str_repr (fst kv) @ '': '' @ snd kv)
                             (map (map_prod id py_repr) d)) @ ''}''"

text \<open>\<open>str(v)\<close>, which is also what \<open>'{0}'.format(v)\<close> and \<open>print(v)\<close> render.\<close>

definition py_str :: "pyval \<Rightarrow> string" where
  "py_str v = (case v of PStr s \<Rightarrow> s | _ \<Rightarrow> py_repr v)"

definition opt_val :: "string option \<Rightarrow> pyval" where
  "opt_val x = (case x of None \<Rightarrow> PNone | Some s \<Rightarrow> PStr s)"

subsection \<open>The float of a byte count\<close>

text \<open>
  \<open>round(v / 2 ** 20, 1)\<close>, the one float expression of the commands, in integer
  arithmetic. A positive double is \<open>m * 2 ^ e\<close> with \<open>2 ^ 52 \<le> m < 2 ^ 53\<close>. All roundings
  are to nearest, ties to even: the division of an int, the rounding to one decimal
  (the decimal nearest to the double itself, read back as the nearest double), and the
  text of a float, which is the shortest decimal that reads back as the same double.
\<close>

definition rne :: "nat \<Rightarrow> nat \<Rightarrow> nat" where
  "rne a b =
     (let q = a div b; r = a mod b in
      if 2 * r < b then q else if b < 2 * r then q + 1 else if even q then q else q + 1)"

fun bits :: "nat \<Rightarrow> nat" where
  "bits n = (if n = 0 then 0 else Suc (bits (n div 2)))"

fun dec_digits :: "nat \<Rightarrow> nat" where
  "dec_digits n = (if n = 0 then 0 else Suc (dec_digits (n div 10)))"

declare bits.simps [simp del] dec_digits.simps [simp del]

text \<open>\<open>2 ^ e\<close> and \<open>10 ^ p\<close> for an exponent that is not negative, 1 otherwise.\<close>

definition pow2 :: "int \<Rightarrow> nat" where
  "pow2 e = 2 ^ nat e"

definition pow10 :: "int \<Rightarrow> nat" where
  "pow10 p = 10 ^ nat p"

text \<open>The double nearest to \<open>a / b\<close>, for positive \<open>a\<close> and \<open>b\<close>, as \<open>(m, e)\<close>.\<close>

definition to_double :: "nat \<Rightarrow> nat \<Rightarrow> nat \<times> int" where
  "to_double a b =
     (let e0 = int (bits a) - int (bits b) - 53;
          e = (if 2 ^ 53 * b * pow2 e0 \<le> a * pow2 (- e0) then e0 + 1 else e0);
          m = rne (a * pow2 (- e)) (b * pow2 e)
      in if m = 2 ^ 53 then (2 ^ 52, e + 1) else (m, e))"

text \<open>The number of digits before the decimal point of the double \<open>m * 2 ^ e\<close>.\<close>

definition dec_point :: "nat \<Rightarrow> int \<Rightarrow> int" where
  "dec_point m e = (let s = max 0 (2 - e) in int (dec_digits (m * pow2 (e + s) div pow2 s)))"

text \<open>
  The decimal of \<open>k\<close> significant digits nearest to the double \<open>m * 2 ^ e\<close>, among those
  that read back as this double if there is one (the flag says so). A decimal reads
  back as the double when it lies within half the gap to the neighbouring doubles,
  the bounds included when \<open>m\<close> is even.
\<close>

definition decimal_at :: "nat \<Rightarrow> int \<Rightarrow> nat \<Rightarrow> nat \<times> bool" where
  "decimal_at m e k =
     (let s = max 0 (2 - e);
          p = dec_point m e - int k;
          v = m * pow2 (e + s) * pow10 (- p);
          hi = (m * pow2 (e + s) + pow2 (e + s - 1)) * pow10 (- p);
          lo = (m * pow2 (e + s) - (if m = 2 ^ 52 then pow2 (e + s - 2) else pow2 (e + s - 1)))
               * pow10 (- p);
          d = pow2 s * pow10 p;
          c = v div d;
          reads_back =
            (\<lambda>x. if even m then lo \<le> x * d \<and> x * d \<le> hi else lo < x * d \<and> x * d < hi);
          below = v - c * d;
          above = (c + 1) * d - v;
          nearest = (if below < above \<or> (below = above \<and> even c) then c else c + 1)
      in if reads_back c \<and> reads_back (c + 1) then (nearest, True)
         else if reads_back c then (c, True)
         else if reads_back (c + 1) then (c + 1, True)
         else (nearest, False))"

text \<open>The shortest such decimal, from \<open>k\<close> digits on; 17 digits always read back.\<close>

function shortest_from :: "nat \<Rightarrow> int \<Rightarrow> nat \<Rightarrow> nat \<times> nat" where
  "shortest_from m e k =
     (case decimal_at m e k of
        (c, found) \<Rightarrow> if found \<or> 17 \<le> k then (c, k) else shortest_from m e (Suc k))"
  by pat_completeness auto
termination
  by (relation "measure (\<lambda>(m, e, k). 17 - k)") auto

declare shortest_from.simps [simp del]

text \<open>
  The text of the decimal with digits \<open>c\<close> and \<open>dp\<close> digits before the point, for a
  value of at least 0.1: with an exponent from \<open>1e+16\<close> on, positional below.
\<close>

definition float_text :: "nat \<Rightarrow> int \<Rightarrow> string" where
  "float_text c dp =
     (let ds = nat_str c; k = int (length ds) in
      if 16 < dp then
        take 1 ds @ (if 1 < k then CHR ''.'' # drop 1 ds else []) @ ''e+'' @ nat_str (nat (dp - 1))
      else if dp \<le> 0 then ''0.'' @ replicate (nat (- dp)) (CHR ''0'') @ ds
      else if k \<le> dp then ds @ replicate (nat (dp - k)) (CHR ''0'') @ ''.0''
      else take (nat dp) ds @ CHR ''.'' # drop (nat dp) ds)"

definition double_repr :: "nat \<Rightarrow> int \<Rightarrow> string" where
  "double_repr m e =
     (case shortest_from m e 1 of
        (c, k) \<Rightarrow> if c = 10 ^ k then float_text 1 (dec_point m e + 1)
                  else float_text c (dec_point m e))"

text \<open>\<open>repr(round(x, 1))\<close> for the positive double \<open>x = m * 2 ^ e\<close>.\<close>

definition round1_text :: "nat \<Rightarrow> int \<Rightarrow> string" where
  "round1_text m e =
     (let tenths = rne (10 * m * pow2 e) (pow2 (- e)) in
      if tenths = 0 then ''0.0''
      else (case to_double tenths 10 of (m', e') \<Rightarrow> double_repr m' e'))"

text \<open>
  An int of \<open>a\<close> bytes, \<open>a\<close> not negative. Below \<open>2 ^ 53\<close> the int is a double and the
  quotient by \<open>2 ^ 20\<close> is exact, so that the result is the quotient itself rounded to
  tenths, a number of at most 12 digits, which is its own shortest text. From
  \<open>2 ^ 1044 - 2 ^ 990\<close> on the quotient rounds to \<open>2 ^ 1024\<close> or more, and the division
  raises \<open>OverflowError\<close>. In between the int is first rounded to a double.
\<close>

definition mib_tenths :: "nat \<Rightarrow> nat" where
  "mib_tenths a = rne (10 * a) (2 ^ 20)"

definition tenths_text :: "nat \<Rightarrow> string" where
  "tenths_text t = nat_str (t div 10) @ CHR ''.'' # nat_str (t mod 10)"

definition mib_text :: "nat \<Rightarrow> exn + string" where
  "mib_text a =
     (if a < 2 ^ 53 then Inr (tenths_text (mib_tenths a))
      else if 2 ^ 1044 - 2 ^ 990 \<le> a then Inl OverflowError
      else (case to_double a 1 of (m, e) \<Rightarrow> Inr (round1_text m (e - 20))))"

definition int_mib :: "int \<Rightarrow> exn + pyval" where
  "int_mib n =
     (case mib_text (nat \<bar>n\<bar>) of
        Inl e \<Rightarrow> Inl e
      | Inr t \<Rightarrow> Inr (PFloat (if n < 0 then CHR ''-'' # t else t)))"

text \<open>
  A float is given by its text: a sign, then digits with a point or an exponent, or
  \<open>inf\<close> or \<open>nan\<close>, which the division and the rounding leave as they are.
\<close>

definition is_digits :: "string \<Rightarrow> bool" where
  "is_digits s = (s \<noteq> [] \<and> list_all (\<lambda>c. c \<in> set ''0123456789'') s)"

definition digits_val :: "string \<Rightarrow> nat" where
  "digits_val s = foldl (\<lambda>acc c. 10 * acc + (of_char c - 48)) 0 s"

definition parse_float :: "string \<Rightarrow> (bool \<times> nat \<times> int) option" where
  "parse_float r =
     (let neg = (take 1 r = ''-'');
          t = (if neg then drop 1 r else r);
          man = takeWhile (\<lambda>c. c \<noteq> CHR ''e'') t;
          ex = drop (Suc (length man)) t;
          ip = takeWhile (\<lambda>c. c \<noteq> CHR ''.'') man;
          fp = drop (Suc (length ip)) man;
          x = (if length man < length t
               then (if take 1 ex = ''-'' then - int (digits_val (drop 1 ex))
                     else int (digits_val (drop 1 ex)))
               else 0)
      in if is_digits ip \<and> is_digits (ip @ fp)
            \<and> (if length man < length t
                then (take 1 ex = ''+'' \<or> take 1 ex = ''-'') \<and> is_digits (drop 1 ex)
                else True)
         then Some (neg, digits_val (ip @ fp), x - int (length fp))
         else None)"

definition float_mib :: "string \<Rightarrow> string" where
  "float_mib r =
     (case parse_float r of
        None \<Rightarrow> r
      | Some (neg, c, x) \<Rightarrow>
          (if neg then ''-'' else []) @
          (if c = 0 then ''0.0''
           else (case to_double (c * pow10 x) (pow10 (- x)) of
                   (m, e) \<Rightarrow> round1_text m (e - 20))))"

text \<open>\<open>round(v / 2 ** 20, 1)\<close>: a bool counts as 0 or 1, anything but a number is a \<open>TypeError\<close>.\<close>

fun round_mib :: "pyval \<Rightarrow> exn + pyval" where
  "round_mib (PInt n) = int_mib n"
| "round_mib (PBool b) = int_mib (if b then 1 else 0)"
| "round_mib (PFloat r) = Inr (PFloat (float_mib r))"
| "round_mib _ = Inl TypeError"

section \<open>What a command does\<close>

text \<open>
  A command is a function from its arguments and from what its surroundings answer (the
  API client's return value or exception, the user's answer, the state file) to the
  trace of its visible effects and the way it ends. Constructing the \<open>Session\<close> is taken
  to succeed; entering and leaving its \<open>with\<close> block are events of the trace.
\<close>

datatype call =
    GroupDetail string "string list"
  | GroupList string "string list"
  | GroupCreate string string string bool
  | GroupUpdate string "string option" "string option" "bool option"
  | GroupDelete string
  | GroupAddUsers string "string list"
  | GroupRemoveUsers string "string list"
  | AdminQuery string pyval
  | ManagerStatus
  | ManagerFreeze bool
  | UpdateAnnouncement bool "string option"

datatype event =
    OpenSession
  | CloseSession
  | Call call
  | Print string
  | PrintStderr string
  | PrintTable "pyval list list" "string list"
  | PrintError exn
  | PrintFail string
  | PrintDone string
  | PrintInfo string
  | PrintWait string
  | Sleep nat
  | AskYN
  | Edit string
  | UsageError

text \<open>
  \<open>Exited n\<close> is \<open>sys.exit(n)\<close>; \<open>Uncaught e\<close> is an exception no handler of the command
  catches, which ends the process with a traceback and exit code 1.
\<close>

datatype ending = Returned | Exited nat | Uncaught exn


type_synonym outcome = "event list \<times> ending"

section \<open>cli/admin/groups.py\<close>

text \<open>
  The command \<open>group\<close> is \<open>group_show\<close> here. The module's \<open>update\<close> and \<open>delete\<close> are
  \<open>groups_update\<close> and \<open>groups_delete\<close>, to tell them from the commands of the same names
  in \<open>cli/manager.py\<close>.
\<close>

definition group_fields :: "(string \<times> string) list" where
  "group_fields =
     [(''ID'', ''id''),
      (''Name'', ''name''),
      (''Description'', ''description''),
      (''Active?'', ''is_active''),
      (''Created At'', ''created_at''),
      (''Domain Name'', ''domain_name'')]"



text \<open>\<open>[field for field in fields if field[1] in resp[0]]\<close>\<close>

fun select_fields :: "(string \<times> string) list \<Rightarrow> pyval \<Rightarrow> exn + (string \<times> string) list" where
  "select_fields [] row = Inr []"
| "select_fields (f # fs) row =
     (case py_in (snd f) row of
        Inl e \<Rightarrow> Inl e
      | Inr b \<Rightarrow>
          (case select_fields fs row of
             Inl e \<Rightarrow> Inl e
           | Inr sel \<Rightarrow> Inr (if b then f # sel else sel)))"

text \<open>\<open>(item.values() for item in items)\<close>, consumed by \<open>tabulate\<close>.\<close>

fun value_rows :: "pyval list \<Rightarrow> exn + pyval list list" where
  "value_rows [] = Inr []"
| "value_rows (item # items) =
     (case py_values item of
        Inl e \<Rightarrow> Inl e
      | Inr r \<Rightarrow> (case value_rows items of Inl e \<Rightarrow> Inl e | Inr rs \<Rightarrow> Inr (r # rs)))"

definition domain_name_hint :: string where
  "domain_name_hint =
     ''Domain name should be given with '' @ [CHR 0x22] @ ''-d'' @ [CHR 0x22] @ '' option. ''
     @ ''If you want to see help for groups command, append '' @ [CHR 0x22] @ ''-h''
     @ [CHR 0x22] @ '' option.''"

text \<open>
  The callback of the \<open>groups\<close> command group. \<open>invoked_subcommand\<close> is
  \<open>ctx.invoked_subcommand\<close>; \<open>list_result\<close> is what \<open>Group.list\<close> answers if it is called.
\<close>

definition groups :: "string option \<Rightarrow> string option \<Rightarrow> exn + pyval \<Rightarrow> outcome" where
  "groups invoked_subcommand domain_name list_result =
     (if invoked_subcommand \<noteq> None then ([], Returned)
      else
        case domain_name of
          None \<Rightarrow> ([Print domain_name_hint], Exited 1)
        | Some d \<Rightarrow>
            (let pre = [OpenSession, Call (GroupList d (map snd group_fields))] in
             case list_result of
               Inl e \<Rightarrow> (pre @ [PrintError e, CloseSession], Exited 1)
             | Inr resp \<Rightarrow>
                 (case py_len resp of
                    Inl e \<Rightarrow> (pre @ [CloseSession], Uncaught e)
                  | Inr n \<Rightarrow>
                      if n < 1 then (pre @ [Print ''There is no group.'', CloseSession], Returned)
                      else
                        (case py_first resp of
                           Inl e \<Rightarrow> (pre @ [CloseSession], Uncaught e)
                         | Inr row0 \<Rightarrow>
                             (case select_fields group_fields row0 of
                                Inl e \<Rightarrow> (pre @ [CloseSession], Uncaught e)
                              | Inr sel \<Rightarrow>
                                  (case py_iter resp of
                                     Inl e \<Rightarrow> (pre @ [CloseSession], Uncaught e)
                                   | Inr items \<Rightarrow>
                                       (case value_rows items of
                                          Inl e \<Rightarrow> (pre @ [CloseSession], Uncaught e)
                                        | Inr rows \<Rightarrow>
                                            (pre @ [PrintTable rows (map fst sel), CloseSession],
                                             Returned))))))))"

definition add :: "string \<Rightarrow> string \<Rightarrow> string \<Rightarrow> bool \<Rightarrow> exn + pyval \<Rightarrow> outcome" where
  "add domain_name name description inactive create_result =
     (let pre = [OpenSession, Call (GroupCreate domain_name name description (\<not> inactive))] in
      case create_result of
        Inl e \<Rightarrow> (pre @ [PrintError e, CloseSession], Exited 1)
      | Inr data \<Rightarrow>
          (case py_getitem data ''ok'' of
             Inl e \<Rightarrow> (pre @ [CloseSession], Uncaught e)
           | Inr ok \<Rightarrow>
               if \<not> truthy ok then
                 (case py_getitem data ''msg'' of
                    Inl e \<Rightarrow> (pre @ [CloseSession], Uncaught e)
                  | Inr msg \<Rightarrow>
                      (pre @ [PrintFail (''Group creation has failed: '' @ py_str msg),
                              CloseSession],
                       Exited 1))
               else
                 (case py_getitem data ''group'' of
                    Inl e \<Rightarrow> (pre @ [CloseSession], Uncaught e)
                  | Inr item \<Rightarrow>
                      (case py_getitem item ''name'' of
                         Inl e \<Rightarrow> (pre @ [CloseSession], Uncaught e)
                       | Inr n \<Rightarrow>
                           (case py_getitem item ''domain_name'' of
                              Inl e \<Rightarrow> (pre @ [CloseSession], Uncaught e)
                            | Inr dn \<Rightarrow>
                                (pre @ [Print (''Group name '' @ py_str n
                                               @ '' is created in domain '' @ py_str dn @ ''.''),
                                        CloseSession],
                                 Returned))))))"

definition groups_update ::
  "string \<Rightarrow> string option \<Rightarrow> string option \<Rightarrow> bool option \<Rightarrow> exn + pyval \<Rightarrow> outcome" where
  "groups_update gid name description is_active update_result =
     (let pre = [OpenSession, Call (GroupUpdate gid name description is_active)] in
      case update_result of
        Inl e \<Rightarrow> (pre @ [PrintError e, CloseSession], Exited 1)
      | Inr data \<Rightarrow>
          (case py_getitem data ''ok'' of
             Inl e \<Rightarrow> (pre @ [CloseSession], Uncaught e)
           | Inr ok \<Rightarrow>
               if \<not> truthy ok then
                 (case py_getitem data ''msg'' of
                    Inl e \<Rightarrow> (pre @ [CloseSession], Uncaught e)
                  | Inr msg \<Rightarrow>
                      (pre @ [PrintFail (''Group update has failed: '' @ py_str msg),
                              CloseSession],
                       Exited 1))
               else
                 (pre @ [Print (''Group '' @ py_str (opt_val name) @ '' is updated.''),
                         CloseSession],
                  Returned)))"

definition groups_delete :: "string \<Rightarrow> exn + pyval \<Rightarrow> outcome" where
  "groups_delete gid delete_result =
     (let pre = [OpenSession, Call (GroupDelete gid)] in
      case delete_result of
        Inl e \<Rightarrow> (pre @ [PrintError e, CloseSession], Exited 1)
      | Inr data \<Rightarrow>
          (case py_getitem data ''ok'' of
             Inl e \<Rightarrow> (pre @ [CloseSession], Uncaught e)
           | Inr ok \<Rightarrow>
               if \<not> truthy ok then
                 (case py_getitem data ''msg'' of
                    Inl e \<Rightarrow> (pre @ [CloseSession], Uncaught e)
                  | Inr msg \<Rightarrow>
                      (pre @ [PrintFail (''Group deletion has failed: '' @ py_str msg),
                              CloseSession],
                       Exited 1))
               else
                 (pre @ [Print (''Group is deleted: '' @ gid @ ''.''), CloseSession],
                  Returned)))"

definition add_users :: "string \<Rightarrow> string list \<Rightarrow> exn + pyval \<Rightarrow> outcome" where
  "add_users gid user_uuids add_result =
     (let pre = [OpenSession, Call (GroupAddUsers gid user_uuids)] in
      case add_result of
        Inl e \<Rightarrow> (pre @ [PrintError e, CloseSession], Exited 1)
      | Inr data \<Rightarrow>
          (case py_getitem data ''ok'' of
             Inl e \<Rightarrow> (pre @ [CloseSession], Uncaught e)
           | Inr ok \<Rightarrow>
               if \<not> truthy ok then
                 (case py_getitem data ''msg'' of
                    Inl e \<Rightarrow> (pre @ [CloseSession], Uncaught e)
                  | Inr msg \<Rightarrow>
                      (pre @ [PrintFail (''Error on adding users to group: '' @ py_str msg),
                              CloseSession],
                       Exited 1))
               else (pre @ [Print ''Users are added to the group'', CloseSession], Returned)))"

definition remove_users :: "string \<Rightarrow> string list \<Rightarrow> exn + pyval \<Rightarrow> outcome" where
  "remove_users gid user_uuids remove_result =
     (let pre = [OpenSession, Call (GroupRemoveUsers gid user_uuids)] in
      case remove_result of
        Inl e \<Rightarrow> (pre @ [PrintError e, CloseSession], Exited 1)
      | Inr data \<Rightarrow>
          (case py_getitem data ''ok'' of
             Inl e \<Rightarrow> (pre @ [CloseSession], Uncaught e)
           | Inr ok \<Rightarrow>
               if \<not> truthy ok then
                 (case py_getitem data ''msg'' of
                    Inl e \<Rightarrow> (pre @ [CloseSession], Uncaught e)
                  | Inr msg \<Rightarrow>
                      (pre @ [PrintFail (''Error on removing users to group: '' @ py_str msg),
                              CloseSession],
                       Exited 1))
               else (pre @ [Print ''Users are removed from the group'', CloseSession], Returned)))"

subsection \<open>Dispatch of the command group\<close>

text \<open>
  \<open>groups\<close> is a click group declared with \<open>invoke_without_command=True\<close>, and the five
  commands above are registered on it. click runs the group's callback first, with
  \<open>ctx.invoked_subcommand\<close> set to the name of the subcommand (or \<open>None\<close>), and then the
  subcommand, unless the callback has ended the process.
\<close>

datatype groups_subcommand =
    Add string string string bool
  | Update string "string option" "string option" "bool option"
  | Delete string
  | AddUsers string "string list"
  | RemoveUsers string "string list"

fun subcommand_name :: "groups_subcommand \<Rightarrow> string" where
  "subcommand_name (Add domain_name name description inactive) = ''add''"
| "subcommand_name (Update gid name description is_active) = ''update''"
| "subcommand_name (Delete gid) = ''delete''"
| "subcommand_name (AddUsers gid user_uuids) = ''add-users''"
| "subcommand_name (RemoveUsers gid user_uuids) = ''remove-users''"

fun run_subcommand :: "groups_subcommand \<Rightarrow> exn + pyval \<Rightarrow> outcome" where
  "run_subcommand (Add domain_name name description inactive) r =
     add domain_name name description inactive r"
| "run_subcommand (Update gid name description is_active) r =
     groups_update gid name description is_active r"
| "run_subcommand (Delete gid) r = groups_delete gid r"
| "run_subcommand (AddUsers gid user_uuids) r = add_users gid user_uuids r"
| "run_subcommand (RemoveUsers gid user_uuids) r = remove_users gid user_uuids r"

definition invoke_groups :: "string option \<Rightarrow> groups_subcommand option \<Rightarrow> exn + pyval \<Rightarrow> outcome" where
  "invoke_groups domain_name sub api_result =
     (case groups (map_option subcommand_name sub) domain_name api_result of
        (evs, Returned) \<Rightarrow>
          (case sub of
             None \<Rightarrow> (evs, Returned)
           | Some c \<Rightarrow> (case run_subcommand c api_result of (evs', st) \<Rightarrow> (evs @ evs', st)))
      | (evs, st) \<Rightarrow> (evs, st))"

section \<open>cli/admin/sessions.py\<close>

text \<open>\<open>s.replace(old, new)\<close>: every occurrence, left to right, without overlap.\<close>

function replace :: "string \<Rightarrow> string \<Rightarrow> string \<Rightarrow> string" where
  "replace old new s =
     (if old = [] then new @ concat (map (\<lambda>c. c # new) s)
      else if s = [] then []
      else if prefix old s then new @ replace old new (drop (length old) s)
      else hd s # replace old new (tl s))"
  by pat_completeness auto
termination
  by (relation "measure (\<lambda>(old, new, s). length s)") auto

declare replace.simps [simp del]

text \<open>
  The one float expression of the module, \<open>round(value / 2 ** 20, 1)\<close>, is the parameter
  \<open>to_mib\<close> of the two commands: it maps the value to the float, or to the exception the
  division raises. The commands as they run are the commands at \<open>round_mib\<close>.
\<close>

type_synonym mib = "pyval \<Rightarrow> exn + pyval"

record sessions_args =
  status :: string
  access_key :: "string option"

definition status_default :: string where
  "status_default = ''RUNNING''"

definition status_choices :: "string list" where
  "status_choices =
     [''PREPARING'', ''BUILDING'', ''RUNNING'', ''RESTARTING'', ''RESIZING'', ''SUSPENDED'',
      ''TERMINATING'', ''TERMINATED'', ''ERROR'', ''ALL'']"

text \<open>
  What the parser declared by the two \<open>add_argument\<close> calls makes of the command line:
  an omitted option takes its default, a status outside the choices is refused.
\<close>

definition parse_sessions_args :: "string option \<Rightarrow> string option \<Rightarrow> sessions_args option" where
  "parse_sessions_args status_opt access_key_opt =
     (case status_opt of
        None \<Rightarrow> Some \<lparr>status = status_default, access_key = access_key_opt\<rparr>
      | Some s \<Rightarrow>
          if s \<in> set status_choices then Some \<lparr>status = s, access_key = access_key_opt\<rparr>
          else None)"

definition sessions_fields :: "(string \<times> string) list" where
  "sessions_fields =
     [(''Session ID'', ''sess_id''),
      (''Lang/runtime'', ''lang''),
      (''Tag'', ''tag''),
      (''Created At'', ''created_at''),
      (''Terminated At'', ''terminated_at''),
      (''Status'', ''status''),
      (''CPU Cores'', ''cpu_slot''),
      (''CPU Used (ns)'', ''cpu_used''),
      (''Total Memory (MiB)'', ''mem_slot''),
      (''Used Memory (MiB)'', ''mem_cur_bytes''),
      (''GPU Cores'', ''gpu_slot'')]"

definition sessions_query :: "sessions_args \<Rightarrow> string" where
  "sessions_query args =
     replace ''$fields'' (join '' '' (map snd sessions_fields))
       (if access_key args = None
        then ''query($status:String) {''
             @ ''  compute_sessions(status:$status) { $fields }''
             @ ''}''
        else ''query($ak:String, $status:String) {''
             @ ''  compute_sessions(access_key:$ak, status:$status) { $fields }''
             @ ''}'')"

definition sessions_variables :: "sessions_args \<Rightarrow> pyval" where
  "sessions_variables args =
     PDict [(''status'', if status args \<noteq> ''ALL'' then PStr (status args) else PNone),
            (''ak'', opt_val (access_key args))]"

text \<open>
  \<open>for item in ...: item['mem_cur_bytes'] = round(item['mem_cur_bytes'] / 2 ** 20, 1)\<close>.
  The items of a decoded response are distinct objects, so updating each in place is a
  map over the list.
\<close>

fun convert_items :: "mib \<Rightarrow> pyval list \<Rightarrow> exn + pyval list" where
  "convert_items to_mib [] = Inr []"
| "convert_items to_mib (item # items) =
     (case py_getitem item ''mem_cur_bytes'' of
        Inl e \<Rightarrow> Inl e
      | Inr b \<Rightarrow>
          (case to_mib b of
             Inl e \<Rightarrow> Inl e
           | Inr m \<Rightarrow>
               (case py_setitem item ''mem_cur_bytes'' m of
                  Inl e \<Rightarrow> Inl e
                | Inr item' \<Rightarrow>
                    (case convert_items to_mib items of
                       Inl e \<Rightarrow> Inl e
                     | Inr items' \<Rightarrow> Inr (item' # items')))))"

definition sessions :: "mib \<Rightarrow> sessions_args \<Rightarrow> exn + pyval \<Rightarrow> outcome" where
  "sessions to_mib args query_result =
     (let pre = [OpenSession, Call (AdminQuery (sessions_query args) (sessions_variables args))] in
      case query_result of
        Inl e \<Rightarrow> (pre @ [PrintError e, CloseSession], Exited 1)
      | Inr resp \<Rightarrow>
          (case py_getitem resp ''compute_sessions'' of
             Inl e \<Rightarrow> (pre @ [CloseSession], Uncaught e)
           | Inr cs \<Rightarrow>
               (case py_len cs of
                  Inl e \<Rightarrow> (pre @ [CloseSession], Uncaught e)
                | Inr n \<Rightarrow>
                    if n = 0 then
                      (pre @ [Print ''There are no compute sessions currently running.'',
                              CloseSession],
                       Returned)
                    else
                      (case py_iter cs of
                         Inl e \<Rightarrow> (pre @ [CloseSession], Uncaught e)
                       | Inr items \<Rightarrow>
                           (case convert_items to_mib items of
                              Inl e \<Rightarrow> (pre @ [CloseSession], Uncaught e)
                            | Inr items' \<Rightarrow>
                                (case value_rows items' of
                                   Inl e \<Rightarrow> (pre @ [CloseSession], Uncaught e)
                                 | Inr rows \<Rightarrow>
                                     (pre @ [PrintTable rows (map fst sessions_fields),
                                             CloseSession],
                                      Returned)))))))"

text \<open>The command as run from the command line: a refused option is exit code 2.\<close>

definition sessions_command :: "mib \<Rightarrow> string option \<Rightarrow> string option \<Rightarrow> exn + pyval \<Rightarrow> outcome" where
  "sessions_command to_mib status_opt access_key_opt query_result =
     (case parse_sessions_args status_opt access_key_opt of
        None \<Rightarrow> ([UsageError], Exited 2)
      | Some args \<Rightarrow> sessions to_mib args query_result)"

record session_args =
  sess_id_or_alias :: string

definition session_fields :: "(string \<times> string) list" where
  "session_fields =
     [(''Session ID'', ''sess_id''),
      (''Role'', ''role''),
      (''Lang/runtime'', ''lang''),
      (''Tag'', ''tag''),
      (''Created At'', ''created_at''),
      (''Terminated At'', ''terminated_at''),
      (''Agent'', ''agent''),
      (''Status'', ''status''),
      (''Status Info'', ''status_info''),
      (''CPU Cores'', ''cpu_slot''),
      (''CPU Used (ns)'', ''cpu_used''),
      (''Total Memory (MiB)'', ''mem_slot''),
      (''Used Memory (MiB)'', ''mem_cur_bytes''),
      (''Max Used Memory (MiB)'', ''mem_max_bytes''),
      (''GPU Cores'', ''gpu_slot''),
      (''Number of Queries'', ''num_queries''),
      (''Network RX Bytes'', ''net_rx_bytes''),
      (''Network TX Bytes'', ''net_tx_bytes''),
      (''IO Read Bytes'', ''io_read_bytes''),
      (''IO Write Bytes'', ''io_write_bytes''),
      (''IO Max Scratch Size'', ''io_max_scratch_size''),
      (''IO Current Scratch Size'', ''io_cur_scratch_size'')]"

definition session_query :: string where
  "session_query =
     replace ''$fields'' (join '' '' (map snd session_fields))
       (''query($sess_id:String) {''
        @ ''  compute_session(sess_id:$sess_id) { $fields }''
        @ ''}'')"

text \<open>
  \<open>for i, value in enumerate(...values()): ... print(fields[i][0] + ': ' + str(value))\<close>.
  The i-th value meets the i-th field: the two lists are walked together, and a value
  beyond the last field is the \<open>IndexError\<close> of \<open>fields[i]\<close>. The lines printed before an
  exception stay printed.
\<close>

fun detail_lines :: "mib \<Rightarrow> (string \<times> string) list \<Rightarrow> pyval list \<Rightarrow> event list \<times> exn option" where
  "detail_lines to_mib fs [] = ([], None)"
| "detail_lines to_mib [] (v # vs) = ([], Some IndexError)"
| "detail_lines to_mib (f # fs) (v # vs) =
     (case (if snd f \<in> set [''mem_cur_bytes'', ''mem_max_bytes''] then to_mib v else Inr v) of
        Inl e \<Rightarrow> ([], Some e)
      | Inr v' \<Rightarrow>
          (case detail_lines to_mib fs vs of
             (evs, r) \<Rightarrow> (Print (fst f @ '': '' @ py_str v') # evs, r)))"

definition session :: "mib \<Rightarrow> session_args \<Rightarrow> exn + pyval \<Rightarrow> outcome" where
  "session to_mib args query_result =
     (let pre = [OpenSession,
                 Call (AdminQuery session_query (PDict [(''sess_id'', PStr (sess_id_or_alias args))]))] in
      case query_result of
        Inl e \<Rightarrow> (pre @ [PrintError e, CloseSession], Exited 1)
      | Inr resp \<Rightarrow>
          (case py_getitem resp ''compute_session'' of
             Inl e \<Rightarrow> (pre @ [CloseSession], Uncaught e)
           | Inr cs \<Rightarrow>
               (case py_getitem cs ''sess_id'' of
                  Inl e \<Rightarrow> (pre @ [CloseSession], Uncaught e)
                | Inr sid \<Rightarrow>
                    if sid = PNone then
                      (pre @ [Print ''There is no such running compute session.'', CloseSession],
                       Returned)
                    else
                      (let header = Print (''Session detail:'' @ [CHR 0x0A] @ ''---------------'') in
                       case py_values cs of
                         Inl e \<Rightarrow> (pre @ [header, CloseSession], Uncaught e)
                       | Inr vals \<Rightarrow>
                           (case detail_lines to_mib session_fields vals of
                              (evs, Some e) \<Rightarrow> (pre @ header # evs @ [CloseSession], Uncaught e)
                            | (evs, None) \<Rightarrow> (pre @ header # evs @ [CloseSession], Returned))))))"

text \<open>
  To speak about what the two commands show: a byte count below \<open>2 ^ 53\<close>, the float
  shown for it, the row of the table for an item, and the value shown for a field of
  the detail listing.
\<close>

fun small_bytes :: "pyval \<Rightarrow> bool" where
  "small_bytes (PInt n) = (0 \<le> n \<and> n < 2 ^ 53)"
| "small_bytes _ = False"

fun mib_cell :: "pyval \<Rightarrow> pyval" where
  "mib_cell (PInt n) = PFloat (tenths_text (mib_tenths (nat n)))"
| "mib_cell v = v"

definition small_item :: "(string \<times> pyval) list \<Rightarrow> bool" where
  "small_item d =
     (distinct (map fst d)
      \<and> (case map_of d ''mem_cur_bytes'' of None \<Rightarrow> False | Some v \<Rightarrow> small_bytes v))"

definition mib_row :: "(string \<times> pyval) list \<Rightarrow> pyval list" where
  "mib_row d = map (\<lambda>kv. if fst kv = ''mem_cur_bytes'' then mib_cell (snd kv) else snd kv) d"

definition shown :: "string \<times> string \<Rightarrow> pyval \<Rightarrow> pyval" where
  "shown f v = (if snd f \<in> set [''mem_cur_bytes'', ''mem_max_bytes''] then mib_cell v else v)"

definition detail_line :: "string \<times> string \<Rightarrow> pyval \<Rightarrow> event" where
  "detail_line f v = Print (fst f @ '': '' @ py_str (shown f v))"

section \<open>cli/manager.py\<close>

subsection \<open>manager freeze\<close>

text \<open>
  The polling loop of \<open>freeze --wait\<close>. \<open>status_at n\<close> is what the n-th call of
  \<open>Manager.status\<close> answers (counting from 0). The loop has no bound: where the count
  never becomes 0 it does not return, and the value is \<open>None\<close>. Where it returns, the
  result is the trace of the loop and the exception that left it, if one did.
\<close>

partial_function (option) freeze_wait ::
  "(nat \<Rightarrow> exn + pyval) \<Rightarrow> nat \<Rightarrow> event list \<Rightarrow> (event list \<times> exn option) option" where
  "freeze_wait status_at n evs =
     (case status_at n of
        Inl e \<Rightarrow> Some (evs @ [Call ManagerStatus], Some e)
      | Inr resp \<Rightarrow>
          (case py_getitem resp ''active_sessions'' of
             Inl e \<Rightarrow> Some (evs @ [Call ManagerStatus], Some e)
           | Inr active_sessions_num \<Rightarrow>
               if py_eq_zero active_sessions_num then Some (evs @ [Call ManagerStatus], None)
               else
                 freeze_wait status_at (Suc n)
                   (evs @ [Call ManagerStatus,
                           PrintWait (''Waiting for all sessions terminated... (''
                                      @ py_str active_sessions_num @ '' left)''),
                           Sleep 3])))"

text \<open>
  \<open>freeze_result\<close> is the exception \<open>Manager.freeze\<close> raises, if it raises one. An
  exception inside the \<open>with\<close> block first leaves the block, then reaches the handler.
\<close>

definition freeze ::
  "bool \<Rightarrow> bool \<Rightarrow> (nat \<Rightarrow> exn + pyval) \<Rightarrow> exn option \<Rightarrow> outcome option" where
  "freeze wait force_kill status_at freeze_result =
     (if wait \<and> force_kill then
        Some ([PrintStderr (''You cannot use both --wait and --force-kill options ''
                            @ ''at the same time.'')],
              Returned)
      else
        case (if wait then freeze_wait status_at 0 [] else Some ([], None)) of
          None \<Rightarrow> None
        | Some (polled, Some e) \<Rightarrow>
            Some (OpenSession # polled @ [CloseSession, PrintError e], Exited 1)
        | Some (polled, None) \<Rightarrow>
            (let evs = OpenSession # polled
                   @ (if wait then [PrintDone ''All sessions are terminated.''] else [])
                   @ (if force_kill then [PrintWait ''Killing all sessions...''] else [])
                   @ [Call (ManagerFreeze force_kill)] in
             case freeze_result of
               Some e \<Rightarrow> Some (evs @ [CloseSession, PrintError e], Exited 1)
             | None \<Rightarrow>
                 Some (evs
                       @ (if force_kill then [PrintDone ''All sessions are killed.''] else [])
                       @ [Print ''Manager is successfully frozen.'', CloseSession],
                       Returned)))"

text \<open>
  To speak about a run of the loop: the count a status answer carries, the counts of
  the first \<open>k\<close> answers, and what one round of waiting on a count \<open>c\<close> leaves in the
  trace.
\<close>

definition active_sessions_of :: "exn + pyval \<Rightarrow> pyval option" where
  "active_sessions_of r =
     (case r of
        Inl e \<Rightarrow> None
      | Inr resp \<Rightarrow>
          (case py_getitem resp ''active_sessions'' of Inl e \<Rightarrow> None | Inr v \<Rightarrow> Some v))"

definition polled_counts :: "(nat \<Rightarrow> exn + pyval) \<Rightarrow> nat \<Rightarrow> pyval option list" where
  "polled_counts status_at k = map (\<lambda>i. active_sessions_of (status_at i)) [0..<k]"

definition wait_round :: "int \<Rightarrow> event list" where
  "wait_round c =
     [Call ManagerStatus,
      PrintWait (''Waiting for all sessions terminated... ('' @ int_str c @ '' left)''),
      Sleep 3]"

subsection \<open>announcement update\<close>

definition edit_template :: string where
  "edit_template = ''<!-- Use Markdown format to edit the announcement message -->''"

text \<open>
  \<open>edit_result\<close> is what \<open>click.edit\<close> gives back if it is called: the saved text, \<open>None\<close>
  when the editor is left without saving, or an exception. \<open>post_result\<close> is the exception
  \<open>Manager.update_announcement\<close> raises, if any. \<open>sys.exit\<close> raises \<open>SystemExit\<close>, which
  the handler for \<open>Exception\<close> does not catch.
\<close>

definition announcement_update ::
  "string option \<Rightarrow> exn + string option \<Rightarrow> exn option \<Rightarrow> outcome" where
  "announcement_update message edit_result post_result =
     (case (if message = None
            then (case edit_result of
                    Inl e \<Rightarrow> Inl e
                  | Inr edited \<Rightarrow> Inr ([Edit edit_template], edited))
            else Inr ([], message)) of
        Inl e \<Rightarrow> ([OpenSession, Edit edit_template, CloseSession, PrintError e], Exited 1)
      | Inr (evs, None) \<Rightarrow> (OpenSession # evs @ [PrintInfo ''Cancelled'', CloseSession], Exited 1)
      | Inr (evs, Some m) \<Rightarrow>
          (case post_result of
             Some e \<Rightarrow>
               (OpenSession # evs @ [Call (UpdateAnnouncement True (Some m)), CloseSession,
                                     PrintError e],
                Exited 1)
           | None \<Rightarrow>
               (OpenSession # evs @ [Call (UpdateAnnouncement True (Some m)), CloseSession,
                                     PrintDone ''Posted new announcement.''],
                Returned)))"

subsection \<open>announcement dismiss\<close>

text \<open>
  The local state file \<open>announcement.json\<close> is missing, or cannot be loaded, or holds a
  JSON value. Opening a missing file is an \<open>IOError\<close>. \<open>Unloadable e\<close> is a file on which
  \<open>open\<close> or \<open>json.load\<close> raises \<open>e\<close>: \<open>IOError\<close> when it cannot be read,
  \<open>UnicodeDecodeError\<close> when its bytes are not text (the file is read in binary mode and
  decoded by \<open>json.load\<close>), \<open>JSONDecodeError\<close> when the text is not JSON,
  \<open>RecursionError\<close> when it is nested beyond the interpreter's limit.
\<close>

datatype state_file = Missing | Unloadable exn | Json pyval

fun load_state :: "state_file \<Rightarrow> exn + pyval" where
  "load_state Missing = Inl IOError"
| "load_state (Unloadable e) = Inl e"
| "load_state (Json v) = Inr v"

text \<open>
  The write-back: the second \<open>open\<close> may raise, and so may \<open>json.dump\<close> into the opened
  file. What the command has done to the file: nothing, or emptied it (opened for
  writing, the dump not completed), or rewritten it with a value.
\<close>

datatype write_back = Written | OpenFails exn | DumpFails exn

datatype file_effect = Untouched | Truncated | Rewritten pyval

text \<open>
  The two handlers of the \<open>try\<close> block: \<open>except (IOError, json.JSONDecodeError)\<close>, then
  \<open>except Exception\<close>; both end in \<open>sys.exit(1)\<close>.
\<close>

definition dismiss_failed :: "exn \<Rightarrow> outcome" where
  "dismiss_failed e =
     (if e = IOError \<or> e = JSONDecodeError
      then ([AskYN, PrintFail ''No announcements seen yet.''], Exited 1)
      else ([AskYN, PrintError e], Exited 1))"

text \<open>\<open>answer\<close> is what \<open>ask_yn()\<close> returns.\<close>

definition dismiss :: "bool \<Rightarrow> state_file \<Rightarrow> write_back \<Rightarrow> outcome \<times> file_effect" where
  "dismiss answer file write =
     (if \<not> answer then (([AskYN, PrintInfo ''Cancelled.''], Exited 1), Untouched)
      else
        case load_state file of
          Inl e \<Rightarrow> (dismiss_failed e, Untouched)
        | Inr state \<Rightarrow>
            (case py_setitem state ''dismissed'' (PBool True) of
               Inl e \<Rightarrow> (dismiss_failed e, Untouched)
             | Inr state' \<Rightarrow>
                 (case write of
                    OpenFails e \<Rightarrow> (dismiss_failed e, Untouched)
                  | DumpFails e \<Rightarrow> (dismiss_failed e, Truncated)
                  | Written \<Rightarrow>
                      (([AskYN, PrintDone ''Dismissed the last shown announcement.''], Returned),
                       Rewritten state'))))"

section \<open>Properties\<close>

subsection \<open>Group commands\<close>

text \<open>
  C1. Each of the five group mutation commands (\<open>groups add\<close>, \<open>update\<close>, \<open>delete\<close>,
  \<open>add-users\<close>, \<open>remove-users\<close>), when the API client returns a mapping whose \<open>ok\<close> is
  false and whose \<open>msg\<close> is the text \<open>msg\<close>, makes its one call, prints a failure message
  that ends with \<open>msg\<close> character for character, leaves the session and exits with
  code 1.
\<close>

theorem group_mutations_report_failure:
  assumes "map_of d ''ok'' = Some (PBool False)" and "map_of d ''msg'' = Some (PStr msg)"
  shows
    "add domain_name name description inactive (Inr (PDict d)) =
       ([OpenSession, Call (GroupCreate domain_name name description (\<not> inactive)),
         PrintFail (''Group creation has failed: '' @ msg), CloseSession], Exited 1)
     \<and> groups_update gid new_name new_description is_active (Inr (PDict d)) =
       ([OpenSession, Call (GroupUpdate gid new_name new_description is_active),
         PrintFail (''Group update has failed: '' @ msg), CloseSession], Exited 1)
     \<and> groups_delete gid (Inr (PDict d)) =
       ([OpenSession, Call (GroupDelete gid),
         PrintFail (''Group deletion has failed: '' @ msg), CloseSession], Exited 1)
     \<and> add_users gid user_uuids (Inr (PDict d)) =
       ([OpenSession, Call (GroupAddUsers gid user_uuids),
         PrintFail (''Error on adding users to group: '' @ msg), CloseSession], Exited 1)
     \<and> remove_users gid user_uuids (Inr (PDict d)) =
       ([OpenSession, Call (GroupRemoveUsers gid user_uuids),
         PrintFail (''Error on removing users to group: '' @ msg), CloseSession], Exited 1)"
  using assms
  by (simp add: add_def groups_update_def groups_delete_def add_users_def remove_users_def
      py_str_def Let_def)

text \<open>The theorem at the response \<open>{'ok': False, 'msg': 'no such domain'}\<close>.\<close>

theorem group_mutations_report_failure_witness:
  "add ''research'' ''vision'' [] False
       (Inr (PDict [(''ok'', PBool False), (''msg'', PStr ''no such domain'')])) =
     ([OpenSession, Call (GroupCreate ''research'' ''vision'' [] True),
       PrintFail ''Group creation has failed: no such domain'', CloseSession], Exited 1)
   \<and> groups_delete ''g1''
       (Inr (PDict [(''ok'', PBool False), (''msg'', PStr ''no such domain'')])) =
     ([OpenSession, Call (GroupDelete ''g1''),
       PrintFail ''Group deletion has failed: no such domain'', CloseSession], Exited 1)"
  using group_mutations_report_failure
    [of "[(''ok'', PBool False), (''msg'', PStr ''no such domain'')]" "''no such domain''"
        "''research''" "''vision''" "[]" False "''g1''"]
  by simp

text \<open>
  C5. Without a subcommand and without \<open>--domain-name\<close>, \<open>groups\<close> prints the hint and
  exits with code 1; the trace holds no session and no call. With a subcommand the
  callback returns at once, whatever the domain name is, so that the command group as
  a whole does exactly what the subcommand does.
\<close>

theorem groups_domain_check:
  "groups None None list_result = ([Print domain_name_hint], Exited 1)
   \<and> groups (Some c) domain_name list_result = ([], Returned)
   \<and> invoke_groups domain_name (Some sub) api_result = run_subcommand sub api_result"
  by (simp add: groups_def invoke_groups_def split: prod.splits)

lemma select_fields_dict:
  "select_fields fs (PDict row) = Inr (filter (\<lambda>f. snd f \<in> set (map fst row)) fs)"
  by (induction fs) simp_all

lemma value_rows_dicts: "value_rows (map PDict rows) = Inr (map (map snd) rows)"
  by (induction rows) simp_all

lemma fewer_headers_than_columns:
  assumes fs: "distinct (map snd fs)" and row: "distinct (map fst row)"
    and k: "k \<in> set (map fst row)" "k \<notin> set (map snd fs)"
  shows "length (filter (\<lambda>f. snd f \<in> set (map fst row)) fs) < length row"
proof -
  let ?sel = "filter (\<lambda>f. snd f \<in> set (map fst row)) fs"
  have "distinct (map snd ?sel)"
    using fs by (simp add: distinct_map_filter)
  then have "length ?sel = card (set (map snd ?sel))"
    by (metis distinct_card length_map)
  also have "set (map snd ?sel) \<subseteq> set (map fst row) - {k}"
    using k by (force simp: image_iff)
  then have "card (set (map snd ?sel)) \<le> card (set (map fst row) - {k})"
    by (intro card_mono) auto
  also have "\<dots> < card (set (map fst row))"
    using k(1) by (intro card_Diff1_less) auto
  also have "\<dots> = length row"
    using row by (metis distinct_card length_map)
  finally show ?thesis .
qed

lemma distinct_group_keys: "distinct (map snd group_fields)"
  by (simp add: group_fields_def)

text \<open>
  C10, as the code has it. For a non-empty result of \<open>Group.list\<close> (a list of mappings),
  \<open>groups\<close> prints one table: its headers are the labels, in the order of the field
  list, of the fields whose key is in the first row; each data row holds all values of
  its mapping in the mapping's own order. Consequently, when the first row (with
  distinct keys, as every dict has) contains a key outside the field list, the first
  data row has more columns than there are headers.
\<close>

theorem groups_list_table:
  "groups None (Some d) (Inr (PList (map PDict (row # rows)))) =
     ([OpenSession, Call (GroupList d (map snd group_fields)),
       PrintTable (map (map snd) (row # rows))
         (map fst (filter (\<lambda>f. snd f \<in> set (map fst row)) group_fields)),
       CloseSession], Returned)
   \<and> (distinct (map fst row) \<and> k \<in> set (map fst row) \<and> k \<notin> set (map snd group_fields) \<longrightarrow>
        length (map fst (filter (\<lambda>f. snd f \<in> set (map fst row)) group_fields))
          < length (map snd row))"
proof (intro conjI impI)
  show "groups None (Some d) (Inr (PList (map PDict (row # rows)))) =
     ([OpenSession, Call (GroupList d (map snd group_fields)),
       PrintTable (map (map snd) (row # rows))
         (map fst (filter (\<lambda>f. snd f \<in> set (map fst row)) group_fields)),
       CloseSession], Returned)"
    using value_rows_dicts [of "row # rows"]
    by (simp add: groups_def Let_def select_fields_dict del: value_rows.simps)
next
  assume "distinct (map fst row) \<and> k \<in> set (map fst row) \<and> k \<notin> set (map snd group_fields)"
  then show "length (map fst (filter (\<lambda>f. snd f \<in> set (map fst row)) group_fields))
          < length (map snd row)"
    using fewer_headers_than_columns [OF distinct_group_keys, of row k] by simp
qed

text \<open>The theorem at a single row \<open>{'id': 'g1', 'tag': 'x'}\<close>: one header, two columns.\<close>

theorem groups_list_table_witness:
  "groups None (Some ''default'')
       (Inr (PList [PDict [(''id'', PStr ''g1''), (''tag'', PStr ''x'')]])) =
     ([OpenSession, Call (GroupList ''default'' (map snd group_fields)),
       PrintTable [[PStr ''g1'', PStr ''x'']] [''ID''], CloseSession], Returned)
   \<and> length [''ID''] < length [PStr ''g1'', PStr ''x'']"
  using groups_list_table
    [of "''default''" "[(''id'', PStr ''g1''), (''tag'', PStr ''x'')]" "[]" "''tag''"]
  by (simp add: group_fields_def)

text \<open>
  C10 as it was stated fails at the result \<open>[{'id': 'g1'}, {'tag': 'x'}]\<close>. The first
  row lacks five of the six requested fields, and the second row holds a key outside
  the field list; yet there is one header and every data row has one column.
\<close>

theorem groups_list_column_count_counterexample:
  "groups None (Some ''default'')
       (Inr (PList [PDict [(''id'', PStr ''g1'')], PDict [(''tag'', PStr ''x'')]])) =
     ([OpenSession, Call (GroupList ''default'' (map snd group_fields)),
       PrintTable [[PStr ''g1''], [PStr ''x'']] [''ID''], CloseSession], Returned)"
  by (simp add: groups_def Let_def group_fields_def)

subsection \<open>Session commands\<close>

text \<open>
  C3. \<open>sessions\<close> run without \<open>--status\<close> (or with \<open>--status RUNNING\<close>) calls
  \<open>Admin.query\<close> with the variable \<open>status\<close> equal to \<open>"RUNNING"\<close>; run with
  \<open>--status ALL\<close> it calls it with \<open>status\<close> equal to \<open>None\<close>. The call is the first thing
  the command does inside its session, whatever the query then answers.
\<close>

theorem sessions_status_variable:
  "take 2 (fst (sessions_command to_mib None ak query_result)) =
     [OpenSession,
      Call (AdminQuery (sessions_query \<lparr>status = ''RUNNING'', access_key = ak\<rparr>)
              (PDict [(''status'', PStr ''RUNNING''), (''ak'', opt_val ak)]))]
   \<and> take 2 (fst (sessions_command to_mib (Some ''RUNNING'') ak query_result)) =
     [OpenSession,
      Call (AdminQuery (sessions_query \<lparr>status = ''RUNNING'', access_key = ak\<rparr>)
              (PDict [(''status'', PStr ''RUNNING''), (''ak'', opt_val ak)]))]
   \<and> take 2 (fst (sessions_command to_mib (Some ''ALL'') ak query_result)) =
     [OpenSession,
      Call (AdminQuery (sessions_query \<lparr>status = ''ALL'', access_key = ak\<rparr>)
              (PDict [(''status'', PNone), (''ak'', opt_val ak)]))]"
  by (simp add: sessions_command_def parse_sessions_args_def status_default_def
      status_choices_def sessions_def sessions_variables_def Let_def split: sum.splits)




lemma rne_nearest:
  assumes "0 < b"
  shows "2 * \<bar>int a - int (rne a b) * int b\<bar> \<le> int b"
    and "2 * \<bar>int a - int (rne a b) * int b\<bar> = int b \<Longrightarrow> even (rne a b)"
proof -
  define q r where "q = a div b" and "r = a mod b"
  have a: "int a = int q * int b + int r"
    unfolding q_def r_def by (metis mult.commute of_nat_add of_nat_mult div_mult_mod_eq)
  have r: "r < b"
    unfolding r_def using assms by simp
  show "2 * \<bar>int a - int (rne a b) * int b\<bar> \<le> int b"
    using a r unfolding rne_def Let_def q_def [symmetric] r_def [symmetric]
    by (auto simp: algebra_simps)
  show "even (rne a b)" if "2 * \<bar>int a - int (rne a b) * int b\<bar> = int b"
    using a r that unfolding rne_def Let_def q_def [symmetric] r_def [symmetric]
    by (auto simp: algebra_simps split: if_splits)
qed

lemma round_mib_small:
  "small_bytes v \<Longrightarrow> round_mib v = Inr (mib_cell v)"
  by (cases v) (auto simp: int_mib_def mib_text_def)

text \<open>
  Below \<open>2 ^ 53\<close> the text of the result is written down directly in \<open>mib_text\<close>. The
  long way (the int as a double, the rounding of the double, the shortest text that
  reads back) gives the same text; here at the two byte counts of the claim and at a
  tie.
\<close>

lemma long_way_agrees:
  "(case to_double 1048576 1 of (m, e) \<Rightarrow> round1_text m (e - 20)) = tenths_text (mib_tenths 1048576)"
  "(case to_double 1572864 1 of (m, e) \<Rightarrow> round1_text m (e - 20)) = tenths_text (mib_tenths 1572864)"
  "(case to_double 262144 1 of (m, e) \<Rightarrow> round1_text m (e - 20)) = tenths_text (mib_tenths 262144)"
  by (simp_all add: to_double_def bits.simps rne_def pow2_def pow10_def
      round1_text_def double_repr_def dec_point_def dec_digits.simps shortest_from.simps
      decimal_at_def float_text_def mib_tenths_def tenths_text_def nat_str.simps Let_def)

lemma update_row:
  "distinct (map fst d) \<Longrightarrow> map_of d ''mem_cur_bytes'' = Some v \<Longrightarrow>
     map snd (AList.update ''mem_cur_bytes'' (mib_cell v) d) = mib_row d"
  by (induction d) (auto simp: mib_row_def rev_image_eqI)

lemma convert_small_items:
  "list_all small_item items \<Longrightarrow>
     \<exists>items'. convert_items round_mib (map PDict items) = Inr items'
       \<and> value_rows items' = Inr (map mib_row items)"
proof (induction items)
  case Nil
  then show ?case by simp
next
  case (Cons d ds)
  then obtain v where v: "map_of d ''mem_cur_bytes'' = Some v" "small_bytes v"
    and d: "distinct (map fst d)"
    by (auto simp: small_item_def split: option.splits)
  from Cons obtain items' where
    "convert_items round_mib (map PDict ds) = Inr items'" "value_rows items' = Inr (map mib_row ds)"
    by auto
  then show ?case
    using v d by (simp add: round_mib_small update_row)
qed

lemma detail_lines_shown:
  "length vs \<le> length fs \<Longrightarrow>
   list_all (\<lambda>(f, v). snd f \<in> set [''mem_cur_bytes'', ''mem_max_bytes''] \<longrightarrow> small_bytes v)
     (zip fs vs) \<Longrightarrow>
   detail_lines round_mib fs vs = (map (\<lambda>(f, v). detail_line f v) (zip fs vs), None)"
proof (induction round_mib fs vs rule: detail_lines.induct)
  case (1 fs)
  then show ?case by simp
next
  case (2 v vs)
  then show ?case by simp
next
  case (3 f fs v vs)
  then show ?case
    by (auto simp: detail_line_def shown_def round_mib_small)
qed

text \<open>
  C4, as the code has it. For a count of \<open>n\<close> bytes below \<open>2 ^ 53\<close>,
  \<open>round(n / 2 ** 20, 1)\<close> is the float whose text is \<open>n / 2 ^ 20\<close> rounded to one decimal:
  the tenths are within half a tenth of the quotient, and even where the quotient lies
  half way. \<open>sessions\<close> shows this float for the \<open>mem_cur_bytes\<close> of every item, the other
  values as they are. \<open>session\<close> shows it for the values that stand at the places of
  \<open>mem_cur_bytes\<close> and \<open>mem_max_bytes\<close> in the field list, which are these two fields when
  the response lists the fields in the order of the query.
\<close>

theorem mib_conversion:
  "(n < 2 ^ 53 \<longrightarrow>
      round_mib (PInt (int n)) = Inr (PFloat (tenths_text (mib_tenths n)))
      \<and> 2 * \<bar>10 * int n - int (mib_tenths n) * 2 ^ 20\<bar> \<le> 2 ^ 20
      \<and> (2 * \<bar>10 * int n - int (mib_tenths n) * 2 ^ 20\<bar> = 2 ^ 20 \<longrightarrow> even (mib_tenths n)))
   \<and> (map_of resp ''compute_sessions'' = Some (PList (map PDict items)) \<and> items \<noteq> []
       \<and> list_all small_item items \<longrightarrow>
      sessions round_mib args (Inr (PDict resp)) =
        ([OpenSession, Call (AdminQuery (sessions_query args) (sessions_variables args)),
          PrintTable (map mib_row items) (map fst sessions_fields), CloseSession], Returned))
   \<and> (map_of resp' ''compute_session'' = Some (PDict cs) \<and> map_of cs ''sess_id'' = Some sid
       \<and> sid \<noteq> PNone \<and> length cs \<le> length session_fields
       \<and> list_all (\<lambda>(f, v). snd f \<in> set [''mem_cur_bytes'', ''mem_max_bytes''] \<longrightarrow> small_bytes v)
            (zip session_fields (map snd cs)) \<longrightarrow>
      session round_mib sargs (Inr (PDict resp')) =
        ([OpenSession,
          Call (AdminQuery session_query (PDict [(''sess_id'', PStr (sess_id_or_alias sargs))])),
          Print (''Session detail:'' @ [CHR 0x0A] @ ''---------------'')]
         @ map (\<lambda>(f, v). detail_line f v) (zip session_fields (map snd cs))
         @ [CloseSession], Returned))"
proof (intro conjI impI)
  assume n: "n < 2 ^ 53"
  then show "round_mib (PInt (int n)) = Inr (PFloat (tenths_text (mib_tenths n)))"
    by (simp add: int_mib_def mib_text_def)
  show "2 * \<bar>10 * int n - int (mib_tenths n) * 2 ^ 20\<bar> \<le> 2 ^ 20"
    using rne_nearest(1) [of "2 ^ 20" "10 * n"] by (simp add: mib_tenths_def)
  show "even (mib_tenths n)" if "2 * \<bar>10 * int n - int (mib_tenths n) * 2 ^ 20\<bar> = 2 ^ 20"
    using rne_nearest(2) [of "2 ^ 20" "10 * n"] that by (simp add: mib_tenths_def)
next
  assume "map_of resp ''compute_sessions'' = Some (PList (map PDict items)) \<and> items \<noteq> []
    \<and> list_all small_item items"
  then have resp: "map_of resp ''compute_sessions'' = Some (PList (map PDict items))"
    and items: "items \<noteq> []" and small: "list_all small_item items"
    by simp_all
  from convert_small_items [OF small] obtain items' where
    "convert_items round_mib (map PDict items) = Inr items'"
    "value_rows items' = Inr (map mib_row items)"
    by auto
  then show "sessions round_mib args (Inr (PDict resp)) =
        ([OpenSession, Call (AdminQuery (sessions_query args) (sessions_variables args)),
          PrintTable (map mib_row items) (map fst sessions_fields), CloseSession], Returned)"
    using resp items by (simp add: sessions_def Let_def)
next
  assume "map_of resp' ''compute_session'' = Some (PDict cs) \<and> map_of cs ''sess_id'' = Some sid
    \<and> sid \<noteq> PNone \<and> length cs \<le> length session_fields
    \<and> list_all (\<lambda>(f, v). snd f \<in> set [''mem_cur_bytes'', ''mem_max_bytes''] \<longrightarrow> small_bytes v)
         (zip session_fields (map snd cs))"
  then have resp: "map_of resp' ''compute_session'' = Some (PDict cs)"
    and sid: "map_of cs ''sess_id'' = Some sid" "sid \<noteq> PNone"
    and len: "length (map snd cs) \<le> length session_fields"
    and small: "list_all (\<lambda>(f, v). snd f \<in> set [''mem_cur_bytes'', ''mem_max_bytes''] \<longrightarrow> small_bytes v)
         (zip session_fields (map snd cs))"
    by simp_all
  show "session round_mib sargs (Inr (PDict resp')) =
        ([OpenSession,
          Call (AdminQuery session_query (PDict [(''sess_id'', PStr (sess_id_or_alias sargs))])),
          Print (''Session detail:'' @ [CHR 0x0A] @ ''---------------'')]
         @ map (\<lambda>(f, v). detail_line f v) (zip session_fields (map snd cs))
         @ [CloseSession], Returned)"
    using resp sid by (simp add: session_def Let_def detail_lines_shown [OF len small])
qed

text \<open>
  The theorem at 1048576 and 1572864 bytes: the floats 1.0 and 1.5, in the table of
  \<open>sessions\<close> and in the listing of \<open>session\<close> for a response with the fields in the
  order of the query.
\<close>

theorem mib_conversion_witness:
  "round_mib (PInt 1048576) = Inr (PFloat ''1.0'')
   \<and> round_mib (PInt 1572864) = Inr (PFloat ''1.5'')
   \<and> sessions round_mib \<lparr>status = ''RUNNING'', access_key = None\<rparr>
        (Inr (PDict [(''compute_sessions'',
                      PList [PDict [(''sess_id'', PStr ''s1''), (''mem_cur_bytes'', PInt 1572864)]])])) =
      ([OpenSession,
        Call (AdminQuery (sessions_query \<lparr>status = ''RUNNING'', access_key = None\<rparr>)
                (sessions_variables \<lparr>status = ''RUNNING'', access_key = None\<rparr>)),
        PrintTable [[PStr ''s1'', PFloat ''1.5'']] (map fst sessions_fields), CloseSession],
       Returned)
   \<and> session round_mib \<lparr>sess_id_or_alias = ''s1''\<rparr>
        (Inr (PDict [(''compute_session'',
                      PDict [(''sess_id'', PStr ''s1''), (''role'', PStr ''master''),
                             (''lang'', PStr ''python''), (''tag'', PNone),
                             (''created_at'', PStr ''2019-01-01''), (''terminated_at'', PNone),
                             (''agent'', PStr ''a1''), (''status'', PStr ''RUNNING''),
                             (''status_info'', PNone), (''cpu_slot'', PInt 1),
                             (''cpu_used'', PInt 100), (''mem_slot'', PInt 1024),
                             (''mem_cur_bytes'', PInt 1048576),
                             (''mem_max_bytes'', PInt 1572864)])])) =
      ([OpenSession, Call (AdminQuery session_query (PDict [(''sess_id'', PStr ''s1'')])),
        Print (''Session detail:'' @ [CHR 0x0A] @ ''---------------''),
        Print ''Session ID: s1'', Print ''Role: master'', Print ''Lang/runtime: python'',
        Print ''Tag: None'', Print ''Created At: 2019-01-01'', Print ''Terminated At: None'',
        Print ''Agent: a1'', Print ''Status: RUNNING'', Print ''Status Info: None'',
        Print ''CPU Cores: 1'', Print ''CPU Used (ns): 100'', Print ''Total Memory (MiB): 1024'',
        Print ''Used Memory (MiB): 1.0'', Print ''Max Used Memory (MiB): 1.5'', CloseSession],
       Returned)"
proof -
  let ?args = "\<lparr>status = ''RUNNING'', access_key = None\<rparr>"
  let ?items = "[[(''sess_id'', PStr ''s1''), (''mem_cur_bytes'', PInt 1572864)]]"
  let ?resp = "[(''compute_sessions'', PList (map PDict ?items))]"
  let ?sargs = "\<lparr>sess_id_or_alias = ''s1''\<rparr>"
  let ?cs = "[(''sess_id'', PStr ''s1''), (''role'', PStr ''master''),
              (''lang'', PStr ''python''), (''tag'', PNone),
              (''created_at'', PStr ''2019-01-01''), (''terminated_at'', PNone),
              (''agent'', PStr ''a1''), (''status'', PStr ''RUNNING''),
              (''status_info'', PNone), (''cpu_slot'', PInt 1),
              (''cpu_used'', PInt 100), (''mem_slot'', PInt 1024),
              (''mem_cur_bytes'', PInt 1048576),
              (''mem_max_bytes'', PInt 1572864)]"
  let ?resp' = "[(''compute_session'', PDict ?cs)]"
  show ?thesis
    using
      mib_conversion [of 1048576 ?resp ?items ?args ?resp' ?cs "PStr ''s1''" ?sargs]
      mib_conversion [of 1572864 ?resp ?items ?args ?resp' ?cs "PStr ''s1''" ?sargs]
    by (simp add: small_item_def mib_row_def session_fields_def detail_line_def shown_def
        py_str_def int_str_def mib_tenths_def rne_def tenths_text_def nat_str.simps)
qed

text \<open>
  C4 as it was stated fails in three places. At \<open>2 ^ 1044\<close> bytes the division raises
  \<open>OverflowError\<close>, which \<open>sessions\<close> does not catch. At \<open>2 ^ 53 + 52429\<close> bytes the int is
  no longer a double: the float shown is 8589934592.0, while the quotient itself rounds
  to 8589934592.1. And \<open>session\<close> converts by place, not by key: a \<open>mem_cur_bytes\<close> that
  stands second in the response is shown under the second label, unconverted.
\<close>

theorem mib_conversion_counterexample:
  "sessions round_mib \<lparr>status = ''RUNNING'', access_key = None\<rparr>
       (Inr (PDict [(''compute_sessions'',
                     PList [PDict [(''sess_id'', PStr ''s1''), (''mem_cur_bytes'', PInt (2 ^ 1044))]])])) =
     ([OpenSession,
       Call (AdminQuery (sessions_query \<lparr>status = ''RUNNING'', access_key = None\<rparr>)
               (sessions_variables \<lparr>status = ''RUNNING'', access_key = None\<rparr>)),
       CloseSession],
      Uncaught OverflowError)
   \<and> round_mib (PInt (2 ^ 53 + 52429)) = Inr (PFloat ''8589934592.0'')
   \<and> mib_tenths (2 ^ 53 + 52429) = 85899345921
   \<and> session round_mib \<lparr>sess_id_or_alias = ''s1''\<rparr>
       (Inr (PDict [(''compute_session'',
                     PDict [(''sess_id'', PStr ''s1''), (''mem_cur_bytes'', PInt 1048576)])])) =
     ([OpenSession, Call (AdminQuery session_query (PDict [(''sess_id'', PStr ''s1'')])),
       Print (''Session detail:'' @ [CHR 0x0A] @ ''---------------''),
       Print ''Session ID: s1'', Print ''Role: 1048576'', CloseSession],
      Returned)"
proof (intro conjI)
  show "sessions round_mib \<lparr>status = ''RUNNING'', access_key = None\<rparr>
       (Inr (PDict [(''compute_sessions'',
                     PList [PDict [(''sess_id'', PStr ''s1''), (''mem_cur_bytes'', PInt (2 ^ 1044))]])])) =
     ([OpenSession,
       Call (AdminQuery (sessions_query \<lparr>status = ''RUNNING'', access_key = None\<rparr>)
               (sessions_variables \<lparr>status = ''RUNNING'', access_key = None\<rparr>)),
       CloseSession],
      Uncaught OverflowError)"
    by (simp add: sessions_def Let_def int_mib_def mib_text_def)
  show "round_mib (PInt (2 ^ 53 + 52429)) = Inr (PFloat ''8589934592.0'')"
    by (simp add: int_mib_def mib_text_def to_double_def bits.simps rne_def pow2_def pow10_def
        round1_text_def double_repr_def dec_point_def dec_digits.simps shortest_from.simps
        decimal_at_def float_text_def nat_str.simps Let_def)
  show "mib_tenths (2 ^ 53 + 52429) = 85899345921"
    by (simp add: mib_tenths_def rne_def)
  show "session round_mib \<lparr>sess_id_or_alias = ''s1''\<rparr>
       (Inr (PDict [(''compute_session'',
                     PDict [(''sess_id'', PStr ''s1''), (''mem_cur_bytes'', PInt 1048576)])])) =
     ([OpenSession, Call (AdminQuery session_query (PDict [(''sess_id'', PStr ''s1'')])),
       Print (''Session detail:'' @ [CHR 0x0A] @ ''---------------''),
       Print ''Session ID: s1'', Print ''Role: 1048576'', CloseSession],
      Returned)"
    by (simp add: session_def Let_def session_fields_def py_str_def int_str_def nat_str.simps)
qed

subsection \<open>Manager commands\<close>

lemma active_sessions_ofD:
  "active_sessions_of r = Some v \<Longrightarrow>
     \<exists>resp. r = Inr resp \<and> py_getitem resp ''active_sessions'' = Inr v"
  by (auto simp: active_sessions_of_def split: sum.splits)

lemma freeze_wait_zero:
  "active_sessions_of (status_at n) = Some (PInt 0) \<Longrightarrow>
     freeze_wait status_at n evs = Some (evs @ [Call ManagerStatus], None)"
  by (subst freeze_wait.simps) (auto dest!: active_sessions_ofD)

lemma freeze_wait_nonzero:
  "active_sessions_of (status_at n) = Some (PInt c) \<Longrightarrow> c \<noteq> 0 \<Longrightarrow>
     freeze_wait status_at n evs = freeze_wait status_at (Suc n) (evs @ wait_round c)"
  by (subst freeze_wait.simps) (auto dest!: active_sessions_ofD simp: wait_round_def py_str_def)

text \<open>The loop returns on every finite run of non-zero counts that a 0 ends.\<close>

lemma freeze_wait_counts:
  "(\<And>i. i < length ns \<Longrightarrow> active_sessions_of (status_at (n + i)) = Some (PInt (ns ! i))) \<Longrightarrow>
   0 \<notin> set ns \<Longrightarrow>
   active_sessions_of (status_at (n + length ns)) = Some (PInt 0) \<Longrightarrow>
   freeze_wait status_at n evs =
     Some (evs @ concat (map wait_round ns) @ [Call ManagerStatus], None)"
proof (induction ns arbitrary: n evs)
  case Nil
  then show ?case by (simp add: freeze_wait_zero)
next
  case (Cons c cs)
  from Cons.prems(1) [of 0] have here: "active_sessions_of (status_at n) = Some (PInt c)"
    by simp
  from Cons.prems(2) have c: "c \<noteq> 0" and cs: "0 \<notin> set cs"
    by auto
  have later: "active_sessions_of (status_at (Suc n + i)) = Some (PInt (cs ! i))"
    if "i < length cs" for i
    using Cons.prems(1) [of "Suc i"] that by simp
  have last: "active_sessions_of (status_at (Suc n + length cs)) = Some (PInt 0)"
    using Cons.prems(3) by simp
  show ?case
    using here c later cs last
    by (simp add: freeze_wait_nonzero [of status_at n c] Cons.IH [of "Suc n"])
qed

lemma polled_counts_nth:
  assumes "polled_counts status_at (length cs) = map (\<lambda>c. Some (PInt c)) cs" and "i < length cs"
  shows "active_sessions_of (status_at i) = Some (PInt (cs ! i))"
proof -
  have "polled_counts status_at (length cs) ! i = active_sessions_of (status_at i)"
    using assms(2) by (simp add: polled_counts_def)
  then show ?thesis
    using assms by simp
qed

text \<open>
  C2. \<open>freeze\<close> with \<open>--wait\<close> and without \<open>--force-kill\<close>, when the answers of
  \<open>Manager.status\<close> carry the counts \<open>ns\<close>, all non-zero, and then 0: the command returns,
  and its trace is one round per count of \<open>ns\<close> (the call, the waiting message with the
  count, a sleep of 3 seconds), then one more call of \<open>Manager.status\<close>, the message
  that all sessions are terminated, and only then \<open>Manager.freeze\<close>. So
  \<open>Manager.status\<close> is called once per element of the sequence, and the loop is left at
  the 0 and nowhere before.
\<close>

theorem freeze_wait_polls_until_zero:
  assumes "polled_counts status_at (Suc (length ns)) = map (\<lambda>c. Some (PInt c)) (ns @ [0])"
    and "0 \<notin> set ns"
  shows "freeze True False status_at freeze_result =
           Some (OpenSession # concat (map wait_round ns)
                 @ [Call ManagerStatus, PrintDone ''All sessions are terminated.'',
                    Call (ManagerFreeze False)]
                 @ (case freeze_result of
                      None \<Rightarrow> [Print ''Manager is successfully frozen.'', CloseSession]
                    | Some e \<Rightarrow> [CloseSession, PrintError e]),
                 case freeze_result of None \<Rightarrow> Returned | Some e \<Rightarrow> Exited 1)"
proof -
  have nth: "active_sessions_of (status_at i) = Some (PInt ((ns @ [0]) ! i))"
    if "i < length (ns @ [0])" for i
    using polled_counts_nth [of status_at "ns @ [0]" i] assms(1) that by simp
  have body: "active_sessions_of (status_at (0 + i)) = Some (PInt (ns ! i))"
    if "i < length ns" for i
    using nth [of i] that by (simp add: nth_append)
  have final: "active_sessions_of (status_at (0 + length ns)) = Some (PInt 0)"
    using nth [of "length ns"] by simp
  have loop: "freeze_wait status_at 0 [] =
                Some ([] @ concat (map wait_round ns) @ [Call ManagerStatus], None)"
    by (rule freeze_wait_counts [OF body assms(2) final])
  show ?thesis
    by (cases freeze_result) (simp_all add: freeze_def loop)
qed

text \<open>The theorem at the counts 2, 1, 0: three polls, two sleeps, then the freeze.\<close>

theorem freeze_wait_polls_until_zero_witness:
  "freeze True False
       (\<lambda>i. Inr (PDict [(''status'', PStr ''running''), (''active_sessions'', PInt (2 - int i))]))
       None =
     Some ([OpenSession,
            Call ManagerStatus, PrintWait ''Waiting for all sessions terminated... (2 left)'',
            Sleep 3,
            Call ManagerStatus, PrintWait ''Waiting for all sessions terminated... (1 left)'',
            Sleep 3,
            Call ManagerStatus, PrintDone ''All sessions are terminated.'',
            Call (ManagerFreeze False), Print ''Manager is successfully frozen.'',
            CloseSession],
           Returned)"
proof -
  let ?s = "\<lambda>i. Inr (PDict [(''status'', PStr ''running''),
                            (''active_sessions'', PInt (2 - int i))]) :: exn + pyval"
  have h1: "polled_counts ?s (Suc (length [2, 1 :: int])) =
              map (\<lambda>c. Some (PInt c)) ([2, 1] @ [0])"
    by (simp add: polled_counts_def active_sessions_of_def upt_rec)
  have h2: "(0::int) \<notin> set [2, 1]"
    by simp
  show ?thesis
    using freeze_wait_polls_until_zero [OF h1 h2, of None]
    by (simp add: wait_round_def int_str_def nat_str.simps)
qed

text \<open>
  C8. \<open>freeze\<close> with both \<open>--wait\<close> and \<open>--force-kill\<close> prints the usage message on the
  error stream and returns: no session is opened, no call is made, \<open>sys.exit\<close> is not
  reached.
\<close>

theorem freeze_both_flags:
  "freeze True True status_at freeze_result =
     Some ([PrintStderr ''You cannot use both --wait and --force-kill options at the same time.''],
           Returned)"
  by (simp add: freeze_def)

text \<open>
  C7, as the code has it. \<open>announcement update\<close> without a message opens the editor.
  If the editor gives back \<open>None\<close>, the command prints the cancellation and exits with
  code 1; if it gives back a text, the command posts that text with \<open>enabled=True\<close>.
\<close>

theorem announcement_update_editor:
  "announcement_update None (Inr None) post_result =
     ([OpenSession, Edit edit_template, PrintInfo ''Cancelled'', CloseSession], Exited 1)
   \<and> announcement_update None (Inr (Some m)) None =
     ([OpenSession, Edit edit_template, Call (UpdateAnnouncement True (Some m)), CloseSession,
       PrintDone ''Posted new announcement.''], Returned)"
  by (simp add: announcement_update_def)

text \<open>
  C7 as it was stated fails at an empty editor result: the empty text is posted as the
  announcement, and the command returns.
\<close>

theorem announcement_update_empty_counterexample:
  "announcement_update None (Inr (Some [])) None =
     ([OpenSession, Edit edit_template, Call (UpdateAnnouncement True (Some [])), CloseSession,
       PrintDone ''Posted new announcement.''], Returned)"
  by (simp add: announcement_update_def)

text \<open>
  C9, as the code has it. \<open>announcement dismiss\<close>, after the answer yes: if the state
  file is missing, or \<open>json.load\<close> raises \<open>JSONDecodeError\<close> on it, the command prints
  that no announcements were seen yet and exits with code 1, and the file is untouched;
  if the file holds a JSON object and the write-back succeeds, the command has
  rewritten the file with the same object with \<open>dismissed\<close> set to true, all other keys
  as they were, and reports success.
\<close>

theorem dismiss_state_file:
  "dismiss True Missing write =
     (([AskYN, PrintFail ''No announcements seen yet.''], Exited 1), Untouched)
   \<and> dismiss True (Unloadable JSONDecodeError) write =
     (([AskYN, PrintFail ''No announcements seen yet.''], Exited 1), Untouched)
   \<and> dismiss True (Json (PDict d)) Written =
       (([AskYN, PrintDone ''Dismissed the last shown announcement.''], Returned),
        Rewritten (PDict (AList.update ''dismissed'' (PBool True) d)))
   \<and> map_of (AList.update ''dismissed'' (PBool True) d) = (map_of d)(''dismissed'' \<mapsto> PBool True)"
  by (simp add: dismiss_def dismiss_failed_def update_conv')

text \<open>
  C9 as it was stated fails in two places. A file whose bytes are not text fails to
  parse, but with \<open>UnicodeDecodeError\<close>, which the second handler reports through
  \<open>print_error\<close>. And a file that holds a JSON object is not rewritten when the second
  \<open>open\<close> raises: the command then prints that no announcements were seen yet and exits
  with code 1.
\<close>

theorem dismiss_state_file_counterexample:
  "dismiss True (Unloadable UnicodeDecodeError) Written =
     (([AskYN, PrintError UnicodeDecodeError], Exited 1), Untouched)
   \<and> dismiss True (Json (PDict [(''seen'', PBool True)])) (OpenFails IOError) =
     (([AskYN, PrintFail ''No announcements seen yet.''], Exited 1), Untouched)"
  by (simp add: dismiss_def dismiss_failed_def)

end
